theory Spec2Isabelle
  imports Main "HOL-Library.Word"
begin

section \<open>The Index type of itensor/index.h\<close>

text \<open>
  \<^verbatim>\<open>enum IndexType { Link, Site, All, NullIndex, Xind, Yind, Zind, Wind, Vind };\<close>
\<close>

datatype IndexType = Link | Site | All | NullIndex | Xind | Yind | Zind | Wind | Vind

text \<open>
  The private members of \<^verbatim>\<open>class Index\<close>, in their order of declaration:
  \<^verbatim>\<open>IDType id_; int primelevel_; long m_; IndexType type_; std::string sname_;\<close>
  \<^verbatim>\<open>IDType\<close> is the result type of \<^verbatim>\<open>mt19937\<close>, an unsigned integer whose values are
  32-bit; \<^verbatim>\<open>int\<close> is a signed 32-bit and \<^verbatim>\<open>long\<close> a signed 64-bit integer (LP64).
  Signed fields are words read through \<open>sint\<close> and compared with \<open><s\<close>.
\<close>

type_synonym IDType = "32 word"
type_synonym c_int = "32 word"
type_synonym c_long = "64 word"

record Index =
  Index_id :: IDType
  Index_primelevel :: c_int
  Index_m :: c_long
  Index_type :: IndexType
  Index_sname :: string

text \<open>
  \<^verbatim>\<open>Error(msg)\<close> comes from global.h; it ends the computation. It is the only failure of
  the code of this header. \<open>StreamFailure\<close> is the failure of a read from a stream that is
  truncated or corrupt (specification, section 7).
\<close>

datatype error = Error string | StreamFailure

definition and_then :: "error + 'a \<Rightarrow> ('a \<Rightarrow> error + 'b) \<Rightarrow> error + 'b" where
  "and_then r f = (case r of Inl e \<Rightarrow> Inl e | Inr x \<Rightarrow> f x)"

subsection \<open>Constructors\<close>

text \<open>
  \<^verbatim>\<open>Index() : id_(0), primelevel_(0), m_(1), type_(NullIndex) { }\<close>;
  the string member is default-constructed, hence empty.
\<close>

definition Index_default :: Index where
  "Index_default =
     \<lparr>Index_id = 0, Index_primelevel = 0, Index_m = 1, Index_type = NullIndex, Index_sname = []\<rparr>"

text \<open>
  \<^verbatim>\<open>generateID()\<close> draws the next value of a function-local static \<^verbatim>\<open>mt19937\<close>. The
  generator is library code: its step function \<open>rng\<close> and its state \<open>g\<close> are parameters,
  and the constructor returns the advanced state.

  \<^verbatim>\<open>
  Index(const std::string& name, long m, IndexType type, int plev)
      : id_(generateID()), primelevel_(plev), m_(m), type_(type), sname_(name)
      {
  #ifdef DEBUG
      if(type_ == All) Error("Constructing Index with type All disallowed");
      if(type_ == NullIndex) Error("Constructing Index with type NullIndex disallowed");
  #endif
      }
  \<close>
  The flag \<open>debug\<close> says whether the macro \<^verbatim>\<open>DEBUG\<close> is defined.
\<close>

definition Index_ctor ::
  "bool \<Rightarrow> ('g \<Rightarrow> IDType \<times> 'g) \<Rightarrow> 'g \<Rightarrow> string \<Rightarrow> c_long \<Rightarrow> IndexType \<Rightarrow> c_int
     \<Rightarrow> error + (Index \<times> 'g)" where
  "Index_ctor debug rng g name m t plev =
     (case rng g of (new_id, g') \<Rightarrow>
        let this = \<lparr>Index_id = new_id, Index_primelevel = plev, Index_m = m,
                    Index_type = t, Index_sname = name\<rparr>
        in if debug \<and> Index_type this = All
             then Inl (Error ''Constructing Index with type All disallowed'')
           else if debug \<and> Index_type this = NullIndex
             then Inl (Error ''Constructing Index with type NullIndex disallowed'')
           else Inr (this, g'))"

subsection \<open>Accessors and conversions\<close>


subsection \<open>Comparison operators\<close>

text \<open>
  \<^verbatim>\<open>operator==: return (id_ == other.id_) && (primelevel_ == other.primelevel_);\<close>
\<close>

definition Index_eq :: "Index \<Rightarrow> Index \<Rightarrow> bool" where
  "Index_eq this other =
     (Index_id this = Index_id other \<and> Index_primelevel this = Index_primelevel other)"

text \<open>\<^verbatim>\<open>operator!=: return !operator==(other);\<close>\<close>

definition Index_neq :: "Index \<Rightarrow> Index \<Rightarrow> bool" where
  "Index_neq this other = (\<not> Index_eq this other)"

text \<open>\<^verbatim>\<open>noprimeEquals: return (id_ == other.id_);\<close>\<close>

definition Index_noprimeEquals :: "Index \<Rightarrow> Index \<Rightarrow> bool" where
  "Index_noprimeEquals this other = (Index_id this = Index_id other)"

text \<open>
  \<^verbatim>\<open>
  operator>:
      if(m_ == other.m_)
          {
          if(id_ == other.id_) return primelevel_ > other.primelevel_;
          return id_ > other.id_;
          }
      return m_ > other.m_;
  \<close>
  \<^verbatim>\<open>m_\<close> and \<^verbatim>\<open>primelevel_\<close> are signed, \<^verbatim>\<open>id_\<close> is unsigned.
\<close>

definition Index_gt :: "Index \<Rightarrow> Index \<Rightarrow> bool" where
  "Index_gt this other =
     (if Index_m this = Index_m other then
        (if Index_id this = Index_id other
           then Index_primelevel other <s Index_primelevel this
         else Index_id other < Index_id this)
      else Index_m other <s Index_m this)"

text \<open>\<^verbatim>\<open>operator<\<close>: the same body with \<^verbatim>\<open><\<close> in place of \<^verbatim>\<open>>\<close>.\<close>

definition Index_less :: "Index \<Rightarrow> Index \<Rightarrow> bool" where
  "Index_less this other =
     (if Index_m this = Index_m other then
        (if Index_id this = Index_id other
           then Index_primelevel this <s Index_primelevel other
         else Index_id this < Index_id other)
      else Index_m this <s Index_m other)"

subsection \<open>Prime level\<close>

text \<open>
  \<^verbatim>\<open>
  Index& Index::prime(int inc)
      {
      primelevel_ += inc;
  #ifdef DEBUG
      if(primelevel_ < 0)
          {
          Error("Negative primeLevel");
          }
  #endif
      return *this;
      }
  \<close>
  A member function that mutates \<^verbatim>\<open>*this\<close> and returns \<^verbatim>\<open>*this\<close> is a function from the
  object before the call to the object after it: the returned reference denotes that same
  object. C++ leaves the overflow of \<^verbatim>\<open>int\<close> addition undefined; the model takes the
  two's complement result.
\<close>

definition Index_prime :: "bool \<Rightarrow> Index \<Rightarrow> c_int \<Rightarrow> error + Index" where
  "Index_prime debug this inc =
     (let this' = this\<lparr>Index_primelevel := Index_primelevel this + inc\<rparr>
      in if debug \<and> Index_primelevel this' <s 0 then Inl (Error ''Negative primeLevel'')
         else Inr this')"

text \<open>
  Modelled from the spec: the body of \<^verbatim>\<open>Index::prime(IndexType type, int inc)\<close> is not
  in index.h, which only declares it (lines 96-99). The specification (4.2): it "adds
  inc only if this Index's type equals the given type or the given type is the wildcard
  All; otherwise a no-op". The specification names no check of the result for this
  overload.
\<close>

definition Index_prime_type :: "Index \<Rightarrow> IndexType \<Rightarrow> c_int \<Rightarrow> Index" where
  "Index_prime_type this t inc =
     (if Index_type this = t \<or> t = All
        then this\<lparr>Index_primelevel := Index_primelevel this + inc\<rparr>
      else this)"

text \<open>
  \<^verbatim>\<open>Index& noprime(IndexType type = All) { prime(type,-primelevel_); return *this; }\<close>
\<close>

definition Index_noprime :: "Index \<Rightarrow> IndexType \<Rightarrow> Index" where
  "Index_noprime this t = Index_prime_type this t (- Index_primelevel this)"

text \<open>
  Modelled from the spec: the body of \<^verbatim>\<open>Index::mapprime(int plevold, int plevnew,
  IndexType type)\<close> is not in index.h, which only declares it (lines 105-108). The
  specification (4.2): it "switches primeLevel from exactly plevold to plevnew when both
  the current level equals plevold and the type matches; otherwise a no-op". A type
  matches as for \<^verbatim>\<open>prime(type, inc)\<close>: it is the Index's type, or it is All.
\<close>

definition Index_mapprime :: "Index \<Rightarrow> c_int \<Rightarrow> c_int \<Rightarrow> IndexType \<Rightarrow> Index" where
  "Index_mapprime this plevold plevnew t =
     (if Index_primelevel this = plevold \<and> (Index_type this = t \<or> t = All)
        then this\<lparr>Index_primelevel := plevnew\<rparr>
      else this)"

subsection \<open>IndexVal\<close>

text \<open>The public members of \<^verbatim>\<open>class IndexVal\<close>: \<^verbatim>\<open>Index index; long val;\<close>\<close>

record IndexVal =
  index :: Index
  val :: c_long

text \<open>
  \<^verbatim>\<open>
  IndexVal& prime(int inc = 1) { index.prime(inc); return *this; }
  IndexVal& prime(IndexType type, int inc = 1) { index.prime(type,inc); return *this; }
  IndexVal& noprime(IndexType type = All) { index.noprime(type); return *this; }
  IndexVal& mapprime(int plevold, int plevnew, IndexType type = All)
      { index.mapprime(plevold,plevnew,type); return *this; }
  \<close>
\<close>

definition IndexVal_prime :: "bool \<Rightarrow> IndexVal \<Rightarrow> c_int \<Rightarrow> error + IndexVal" where
  "IndexVal_prime debug this inc =
     (case Index_prime debug (index this) inc of
        Inl e \<Rightarrow> Inl e
      | Inr i \<Rightarrow> Inr (this\<lparr>index := i\<rparr>))"

definition IndexVal_prime_type :: "IndexVal \<Rightarrow> IndexType \<Rightarrow> c_int \<Rightarrow> IndexVal" where
  "IndexVal_prime_type this t inc = this\<lparr>index := Index_prime_type (index this) t inc\<rparr>"

definition IndexVal_noprime :: "IndexVal \<Rightarrow> IndexType \<Rightarrow> IndexVal" where
  "IndexVal_noprime this t = this\<lparr>index := Index_noprime (index this) t\<rparr>"

definition IndexVal_mapprime :: "IndexVal \<Rightarrow> c_int \<Rightarrow> c_int \<Rightarrow> IndexType \<Rightarrow> IndexVal" where
  "IndexVal_mapprime this plevold plevnew t =
     this\<lparr>index := Index_mapprime (index this) plevold plevnew t\<rparr>"

subsection \<open>The free function templates\<close>

text \<open>
  \<^verbatim>\<open>
  template<class T> T prime(T I, int inc = 1) { I.prime(inc); return I; }
  template<class T> T prime(T I, IndexType type, int inc = 1) { I.prime(type,inc); return I; }
  template<class T> T noprime(T I, IndexType type = All) { I.noprime(type); return I; }
  template<class T> T mapPrime(T I, int plevold, int plevnew, IndexType type = All)
      { I.mapprime(plevold,plevnew,type); return I; }
  \<close>
  The template parameter \<^verbatim>\<open>T\<close> is a type variable and the member function of \<^verbatim>\<open>T\<close>
  that the body calls is an argument. The parameter \<^verbatim>\<open>I\<close> is passed by value: it is a
  copy of the caller's object \<open>arg\<close>, and the member call works on the copy. Each function
  yields a pair: the caller's object as it is after the call, and the value returned.
\<close>

definition prime_free ::
  "('t \<Rightarrow> c_int \<Rightarrow> error + 't) \<Rightarrow> 't \<Rightarrow> c_int \<Rightarrow> 't \<times> (error + 't)" where
  "prime_free member_prime arg inc = (let I = arg in (arg, member_prime I inc))"

definition prime_type_free ::
  "('t \<Rightarrow> IndexType \<Rightarrow> c_int \<Rightarrow> 't) \<Rightarrow> 't \<Rightarrow> IndexType \<Rightarrow> c_int \<Rightarrow> 't \<times> 't" where
  "prime_type_free member_prime_type arg t inc = (let I = arg in (arg, member_prime_type I t inc))"

definition noprime_free :: "('t \<Rightarrow> IndexType \<Rightarrow> 't) \<Rightarrow> 't \<Rightarrow> IndexType \<Rightarrow> 't \<times> 't" where
  "noprime_free member_noprime arg t = (let I = arg in (arg, member_noprime I t))"

definition mapPrime ::
  "('t \<Rightarrow> c_int \<Rightarrow> c_int \<Rightarrow> IndexType \<Rightarrow> 't) \<Rightarrow> 't \<Rightarrow> c_int \<Rightarrow> c_int \<Rightarrow> IndexType \<Rightarrow> 't \<times> 't" where
  "mapPrime member_mapprime arg plevold plevnew t =
     (let I = arg in (arg, member_mapprime I plevold plevnew t))"

subsection \<open>The binary codec\<close>

text \<open>
  The ordinal of an \<^verbatim>\<open>IndexType\<close> is its position in the enumeration of index.h.
\<close>

fun IndexType_ordinal :: "IndexType \<Rightarrow> nat" where
  "IndexType_ordinal Link = 0"
| "IndexType_ordinal Site = 1"
| "IndexType_ordinal All = 2"
| "IndexType_ordinal NullIndex = 3"
| "IndexType_ordinal Xind = 4"
| "IndexType_ordinal Yind = 5"
| "IndexType_ordinal Zind = 6"
| "IndexType_ordinal Wind = 7"
| "IndexType_ordinal Vind = 8"

definition IndexType_of_ordinal :: "nat \<Rightarrow> IndexType option" where
  "IndexType_of_ordinal n =
     (if n = 0 then Some Link else if n = 1 then Some Site else if n = 2 then Some All
      else if n = 3 then Some NullIndex else if n = 4 then Some Xind
      else if n = 5 then Some Yind else if n = 6 then Some Zind
      else if n = 7 then Some Wind else if n = 8 then Some Vind else None)"

text \<open>
  An integer field of n bytes, least significant byte first, and its value. A stream is
  the list of its bytes (\<open>char\<close> is a byte).
\<close>

fun le_bytes :: "nat \<Rightarrow> nat \<Rightarrow> string" where
  "le_bytes 0 v = []"
| "le_bytes (Suc n) v = char_of (v mod 256) # le_bytes n (v div 256)"

fun le_nat :: "string \<Rightarrow> nat" where
  "le_nat [] = 0"
| "le_nat (c # cs) = of_char c + 256 * le_nat cs"

text \<open>Taking n bytes from an input stream fails when fewer are left.\<close>

definition get_bytes :: "nat \<Rightarrow> string \<Rightarrow> error + (string \<times> string)" where
  "get_bytes n s = (if length s < n then Inl StreamFailure else Inr (take n s, drop n s))"

text \<open>
  Modelled from the spec: the bodies of \<^verbatim>\<open>Index::write(std::ostream&)\<close> and
  \<^verbatim>\<open>Index::read(std::istream&)\<close> are not in index.h, which only declares them (lines
  146-152). The specification (4.5, 6): they "serialize, in a fixed field order, the
  complete persistent state of an Index", the format being "id (unsigned integer),
  primeLevel (signed integer), m (integer), type (integer ordinal of the type
  enumeration), name (length-prefixed byte sequence)", and (7) a truncated or corrupt
  stream "must surface as a stream-level failure". The specification fixes neither
  widths nor byte order: each integer is written in the width of its member, the ordinal
  and the length prefix in the four bytes of an \<^verbatim>\<open>int\<close>, least significant byte first.
  \<open>Index_write\<close> appends to the output stream \<open>s\<close>; \<open>Index_read\<close> assigns every
  member of \<open>this\<close> and returns it with the rest of the input stream.
\<close>

definition Index_write :: "Index \<Rightarrow> string \<Rightarrow> string" where
  "Index_write this s =
     s @ le_bytes 4 (unat (Index_id this))
       @ le_bytes 4 (unat (Index_primelevel this))
       @ le_bytes 8 (unat (Index_m this))
       @ le_bytes 4 (IndexType_ordinal (Index_type this))
       @ le_bytes 4 (length (Index_sname this))
       @ Index_sname this"

definition Index_read :: "Index \<Rightarrow> string \<Rightarrow> error + (Index \<times> string)" where
  "Index_read this s =
     and_then (get_bytes 4 s) (\<lambda>(b_id, s1).
     and_then (get_bytes 4 s1) (\<lambda>(b_plev, s2).
     and_then (get_bytes 8 s2) (\<lambda>(b_m, s3).
     and_then (get_bytes 4 s3) (\<lambda>(b_type, s4).
     and_then (case IndexType_of_ordinal (le_nat b_type) of
                 None \<Rightarrow> Inl StreamFailure | Some t \<Rightarrow> Inr t) (\<lambda>t.
     and_then (get_bytes 4 s4) (\<lambda>(b_len, s5).
     and_then (get_bytes (le_nat b_len) s5) (\<lambda>(b_name, s6).
       Inr (this\<lparr>Index_id := of_nat (le_nat b_id),
                 Index_primelevel := of_nat (le_nat b_plev),
                 Index_m := of_nat (le_nat b_m),
                 Index_type := t,
                 Index_sname := b_name\<rparr>, s6))))))))"

text \<open>
  Modelled from the spec: the body of \<^verbatim>\<open>Index::name()\<close> is not in index.h, which only
  declares it (lines 65-67). The specification (3, 4.2): the name is "stored without
  prime decoration; display form appends prime markers derived from primeLevel". The
  function \<open>primes\<close> that decorates a raw name for a prime level is a parameter.
  \<^verbatim>\<open>rawname()\<close> returns the stored name.
\<close>

definition Index_name :: "(string \<Rightarrow> c_int \<Rightarrow> string) \<Rightarrow> Index \<Rightarrow> string" where
  "Index_name primes this = primes (Index_sname this) (Index_primelevel this)"

definition Index_rawname :: "Index \<Rightarrow> string" where
  "Index_rawname this = Index_sname this"

subsection \<open>The order by keys, as the specification words it\<close>

text \<open>
  The specification orders Index values by the key m, then the key id, then the key
  primeLevel. \<open>Index_key\<close> reads the three keys as integers (m and primeLevel signed, id
  unsigned) and \<open>key_less\<close> is the lexicographic order on such triples.
\<close>

definition Index_key :: "Index \<Rightarrow> int \<times> int \<times> int" where
  "Index_key this = (sint (Index_m this), uint (Index_id this), sint (Index_primelevel this))"

definition key_less :: "int \<times> int \<times> int \<Rightarrow> int \<times> int \<times> int \<Rightarrow> bool" where
  "key_less x y =
     (case x of (m1, id1, p1) \<Rightarrow> case y of (m2, id2, p2) \<Rightarrow>
        m1 < m2 \<or> (m1 = m2 \<and> (id1 < id2 \<or> (id1 = id2 \<and> p1 < p2))))"

section \<open>Equality\<close>

text \<open>
  C1. Two Index values are equal under \<^verbatim>\<open>==\<close> exactly when their ids are equal and
  their prime levels are equal. The fields m, type and name have no influence: replacing
  them in either operand by any other values leaves the result as it is. \<^verbatim>\<open>!=\<close> is the
  negation of \<^verbatim>\<open>==\<close>.
\<close>

theorem Index_eq_id_and_primelevel:
  "Index_eq a b = (Index_id a = Index_id b \<and> Index_primelevel a = Index_primelevel b)
   \<and> Index_eq (a\<lparr>Index_m := m1, Index_type := t1, Index_sname := n1\<rparr>)
               (b\<lparr>Index_m := m2, Index_type := t2, Index_sname := n2\<rparr>) = Index_eq a b
   \<and> Index_neq a b = (\<not> Index_eq a b)"
  by (simp add: Index_eq_def Index_neq_def)

text \<open>
  C10. Two default-constructed Index values are equal under \<^verbatim>\<open>==\<close> and under
  \<^verbatim>\<open>noprimeEquals\<close>: the default constructor always stores id 0 and primeLevel 0, so
  every default-constructed Index is the value \<open>Index_default\<close>, and the comparison
  cannot tell two of them apart.
\<close>

theorem Index_default_eq_Index_default:
  "Index_id Index_default = 0 \<and> Index_primelevel Index_default = 0
   \<and> Index_eq Index_default Index_default
   \<and> Index_noprimeEquals Index_default Index_default
   \<and> \<not> Index_neq Index_default Index_default"
  by (simp add: Index_default_def Index_eq_def Index_noprimeEquals_def Index_neq_def)

section \<open>The strict order\<close>

lemma sint_eq_iff: "(sint a = sint b) = (a = b)"
  by (auto intro: signed_word_eqI)

lemma uint_eq_iff: "(uint a = uint b) = (a = b)"
  by (simp add: word_uint_eq_iff)

lemma Index_less_key: "Index_less a b = key_less (Index_key a) (Index_key b)"
  by (simp add: Index_less_def key_less_def Index_key_def word_sless_alt word_less_def
      sint_eq_iff uint_eq_iff)

lemma Index_gt_less: "Index_gt a b = Index_less b a"
  by (auto simp: Index_gt_def Index_less_def)

lemma key_less_trans: "key_less x y \<Longrightarrow> key_less y z \<Longrightarrow> key_less x z"
  by (auto simp: key_less_def split: prod.splits)

lemma key_less_asym: "key_less x y \<Longrightarrow> \<not> key_less y x"
  by (auto simp: key_less_def split: prod.splits)

lemma key_less_total: "x \<noteq> y \<Longrightarrow> key_less x y \<or> key_less y x"
  by (auto simp: key_less_def split: prod.splits)

text \<open>
  What a sort with the comparator \<^verbatim>\<open>operator<\<close> guarantees of its output is that no later
  element is less than an earlier one. On distinct keys that is strict ascent of the keys.
\<close>

lemma sorted_by_Index_less_keys:
  "distinct (map Index_key xs) \<Longrightarrow> sorted_wrt (\<lambda>x y. \<not> Index_less y x) xs
     \<Longrightarrow> sorted_wrt (\<lambda>x y. key_less (Index_key x) (Index_key y)) xs"
proof (induction xs)
  case Nil
  then show ?case by simp
next
  case (Cons x xs)
  then show ?case
    by (auto simp: Index_less_key dest: key_less_total)
qed

text \<open>
  C3. \<^verbatim>\<open>operator<\<close> is the lexicographic order on the keys m, id, primeLevel: m first,
  on a tie id, on a tie primeLevel. \<^verbatim>\<open>operator>\<close> is the mirrored order. The order is
  transitive, no two values are each less than the other, and two values whose key
  triples differ are comparable. Hence a list of Index values with distinct key triples
  that is sorted by \<^verbatim>\<open>operator<\<close> (no later element less than an earlier one) ascends
  strictly by m, then id, then primeLevel.
\<close>

theorem Index_less_lexicographic_order:
  "Index_less a b = key_less (Index_key a) (Index_key b)
   \<and> Index_gt a b = Index_less b a
   \<and> (Index_less a b \<longrightarrow> Index_less b c \<longrightarrow> Index_less a c)
   \<and> \<not> (Index_less a b \<and> Index_less b a)
   \<and> (Index_key a \<noteq> Index_key b \<longrightarrow> Index_less a b \<or> Index_less b a)
   \<and> (distinct (map Index_key xs) \<longrightarrow> sorted_wrt (\<lambda>x y. \<not> Index_less y x) xs \<longrightarrow>
        sorted_wrt (\<lambda>x y. key_less (Index_key x) (Index_key y)) xs)"
proof -
  have trans: "Index_less a b \<longrightarrow> Index_less b c \<longrightarrow> Index_less a c"
    unfolding Index_less_key by (blast intro: key_less_trans)
  have asym: "\<not> (Index_less a b \<and> Index_less b a)"
    unfolding Index_less_key by (blast dest: key_less_asym)
  have total: "Index_key a \<noteq> Index_key b \<longrightarrow> Index_less a b \<or> Index_less b a"
    unfolding Index_less_key by (blast dest: key_less_total)
  from trans asym total show ?thesis
    using Index_less_key [of a b] Index_gt_less [of a b] sorted_by_Index_less_keys [of xs]
    by blast
qed

theorem Index_less_lexicographic_order_witness:
  "Index_less
     \<lparr>Index_id = 5, Index_primelevel = 0, Index_m = 2, Index_type = Link, Index_sname = ''a''\<rparr>
     \<lparr>Index_id = 5, Index_primelevel = 1, Index_m = 2, Index_type = Link, Index_sname = ''a''\<rparr>
   \<and> Index_less
     \<lparr>Index_id = 5, Index_primelevel = 1, Index_m = 2, Index_type = Link, Index_sname = ''a''\<rparr>
     \<lparr>Index_id = 1, Index_primelevel = 0, Index_m = 3, Index_type = Site, Index_sname = ''c''\<rparr>
   \<and> Index_less
     \<lparr>Index_id = 5, Index_primelevel = 0, Index_m = 2, Index_type = Link, Index_sname = ''a''\<rparr>
     \<lparr>Index_id = 1, Index_primelevel = 0, Index_m = 3, Index_type = Site, Index_sname = ''c''\<rparr>
   \<and> distinct (map Index_key
     [\<lparr>Index_id = 5, Index_primelevel = 0, Index_m = 2, Index_type = Link, Index_sname = ''a''\<rparr>,
      \<lparr>Index_id = 5, Index_primelevel = 1, Index_m = 2, Index_type = Link, Index_sname = ''a''\<rparr>,
      \<lparr>Index_id = 1, Index_primelevel = 0, Index_m = 3, Index_type = Site, Index_sname = ''c''\<rparr>])
   \<and> sorted_wrt (\<lambda>x y. \<not> Index_less y x)
     [\<lparr>Index_id = 5, Index_primelevel = 0, Index_m = 2, Index_type = Link, Index_sname = ''a''\<rparr>,
      \<lparr>Index_id = 5, Index_primelevel = 1, Index_m = 2, Index_type = Link, Index_sname = ''a''\<rparr>,
      \<lparr>Index_id = 1, Index_primelevel = 0, Index_m = 3, Index_type = Site, Index_sname = ''c''\<rparr>]
   \<and> sorted_wrt (\<lambda>x y. key_less (Index_key x) (Index_key y))
     [\<lparr>Index_id = 5, Index_primelevel = 0, Index_m = 2, Index_type = Link, Index_sname = ''a''\<rparr>,
      \<lparr>Index_id = 5, Index_primelevel = 1, Index_m = 2, Index_type = Link, Index_sname = ''a''\<rparr>,
      \<lparr>Index_id = 1, Index_primelevel = 0, Index_m = 3, Index_type = Site, Index_sname = ''c''\<rparr>]"
  using Index_less_lexicographic_order
    [of "\<lparr>Index_id = 5, Index_primelevel = 0, Index_m = 2, Index_type = Link, Index_sname = ''a''\<rparr>"
        "\<lparr>Index_id = 5, Index_primelevel = 1, Index_m = 2, Index_type = Link, Index_sname = ''a''\<rparr>"
        "\<lparr>Index_id = 1, Index_primelevel = 0, Index_m = 3, Index_type = Site, Index_sname = ''c''\<rparr>"
        "[\<lparr>Index_id = 5, Index_primelevel = 0, Index_m = 2, Index_type = Link, Index_sname = ''a''\<rparr>,
          \<lparr>Index_id = 5, Index_primelevel = 1, Index_m = 2, Index_type = Link, Index_sname = ''a''\<rparr>,
          \<lparr>Index_id = 1, Index_primelevel = 0, Index_m = 3, Index_type = Site, Index_sname = ''c''\<rparr>]"]
  by (simp add: Index_less_def Index_key_def key_less_def word_sless_alt)

section \<open>The member prime(int)\<close>

lemma sint_add_in_range:
  "0 \<le> sint a + sint b \<Longrightarrow> sint a + sint b < 2 ^ 31 \<Longrightarrow> sint ((a::c_int) + b) = sint a + sint b"
  by (simp add: sint_word_ariths signed_take_bit_int_eq_self)

text \<open>
  C4. \<^verbatim>\<open>prime(inc)\<close> adds inc to primeLevel and returns the Index. Without the debug
  check it always does so. With the debug check it signals the fatal error exactly when
  the new primeLevel is negative, and otherwise returns the Index with the new level.
  When the new level \<^verbatim>\<open>primeLevel + inc\<close> is not negative the error does not occur,
  with or without the check; in particular when the sum of the two integers is not
  negative and is within the range of \<^verbatim>\<open>int\<close>.
\<close>

theorem Index_prime_adds_inc:
  "Index_prime False i inc = Inr (i\<lparr>Index_primelevel := Index_primelevel i + inc\<rparr>)
   \<and> Index_prime True i inc =
       (if sint (Index_primelevel i + inc) < 0 then Inl (Error ''Negative primeLevel'')
        else Inr (i\<lparr>Index_primelevel := Index_primelevel i + inc\<rparr>))
   \<and> (0 \<le> sint (Index_primelevel i + inc) \<longrightarrow>
        Index_prime debug i inc = Inr (i\<lparr>Index_primelevel := Index_primelevel i + inc\<rparr>))
   \<and> (0 \<le> sint (Index_primelevel i) + sint inc
        \<and> sint (Index_primelevel i) + sint inc < 2 ^ 31 \<longrightarrow>
        Index_prime debug i inc = Inr (i\<lparr>Index_primelevel := Index_primelevel i + inc\<rparr>))"
  by (simp add: Index_prime_def word_sless_alt sint_add_in_range)

theorem Index_prime_adds_inc_witness:
  "(0::int) \<le> sint ((2::c_int) + 3)
   \<and> (0::int) \<le> sint (2::c_int) + sint (3::c_int)
   \<and> sint (2::c_int) + sint (3::c_int) < 2 ^ 31
   \<and> Index_prime True (Index_default\<lparr>Index_primelevel := 2\<rparr>) 3
       = Inr (Index_default\<lparr>Index_primelevel := 5\<rparr>)
   \<and> Index_prime False (Index_default\<lparr>Index_primelevel := 2\<rparr>) (- 3)
       = Inr (Index_default\<lparr>Index_primelevel := - 1\<rparr>)
   \<and> Index_prime True (Index_default\<lparr>Index_primelevel := 2\<rparr>) (- 3)
       = Inl (Error ''Negative primeLevel'')"
  using Index_prime_adds_inc [of "Index_default\<lparr>Index_primelevel := 2\<rparr>" 3 True]
    Index_prime_adds_inc [of "Index_default\<lparr>Index_primelevel := 2\<rparr>" "- 3" True]
  by (simp add: Index_default_def)

section \<open>Construction and the null sentinel\<close>




section \<open>Prime levels gated by the type\<close>

text \<open>
  C5. When T is not All and T is not the type of the Index, \<^verbatim>\<open>prime(T, inc)\<close> leaves
  the Index as it is, in every field. When T is the type of the Index or T is All, it
  adds inc to primeLevel and changes nothing else.
\<close>

theorem Index_prime_type_gated:
  "(t \<noteq> All \<and> t \<noteq> Index_type i \<longrightarrow> Index_prime_type i t inc = i)
   \<and> (t = Index_type i \<or> t = All \<longrightarrow>
        Index_prime_type i t inc = i\<lparr>Index_primelevel := Index_primelevel i + inc\<rparr>)"
  by (auto simp: Index_prime_type_def)

theorem Index_prime_type_gated_witness:
  "Site \<noteq> All \<and> Site \<noteq> Index_type (Index_default\<lparr>Index_type := Link\<rparr>)
   \<and> Index_prime_type (Index_default\<lparr>Index_type := Link\<rparr>) Site 2
       = Index_default\<lparr>Index_type := Link\<rparr>
   \<and> Index_prime_type (Index_default\<lparr>Index_type := Link\<rparr>) Link 2
       = Index_default\<lparr>Index_type := Link, Index_primelevel := 2\<rparr>
   \<and> Index_prime_type (Index_default\<lparr>Index_type := Link\<rparr>) All 2
       = Index_default\<lparr>Index_type := Link, Index_primelevel := 2\<rparr>"
  using Index_prime_type_gated [of Site "Index_default\<lparr>Index_type := Link\<rparr>" 2]
    Index_prime_type_gated [of Link "Index_default\<lparr>Index_type := Link\<rparr>" 2]
    Index_prime_type_gated [of All "Index_default\<lparr>Index_type := Link\<rparr>" 2]
  by (simp add: Index_default_def)

text \<open>
  C6. \<^verbatim>\<open>mapprime(a, b, T)\<close> sets primeLevel to b when the current primeLevel is a and T
  is the type of the Index or All; with another current level, or a type that does not
  match, the Index is left as it is in every field. For a j of primeLevel 1,
  \<^verbatim>\<open>mapPrime(j, 1, 5)\<close> returns an Index of primeLevel 5 and \<^verbatim>\<open>mapPrime(j, 2, 9)\<close> returns
  a copy identical to j (the type argument defaults to All).
\<close>

theorem Index_mapprime_exact:
  "(Index_primelevel i = a \<and> (Index_type i = t \<or> t = All) \<longrightarrow>
      Index_mapprime i a b t = i\<lparr>Index_primelevel := b\<rparr>)
   \<and> (Index_primelevel i \<noteq> a \<or> (Index_type i \<noteq> t \<and> t \<noteq> All) \<longrightarrow>
        Index_mapprime i a b t = i)
   \<and> (Index_primelevel j = 1 \<longrightarrow>
        Index_primelevel (snd (mapPrime Index_mapprime j 1 5 All)) = 5
        \<and> snd (mapPrime Index_mapprime j 2 9 All) = j)"
  by (auto simp: Index_mapprime_def mapPrime_def)

theorem Index_mapprime_exact_witness:
  "Index_primelevel (Index_default\<lparr>Index_type := Link, Index_primelevel := 1\<rparr>) = 1
   \<and> Index_mapprime (Index_default\<lparr>Index_type := Link, Index_primelevel := 1\<rparr>) 1 5 Link
       = Index_default\<lparr>Index_type := Link, Index_primelevel := 5\<rparr>
   \<and> Index_mapprime (Index_default\<lparr>Index_type := Link, Index_primelevel := 1\<rparr>) 1 5 Site
       = Index_default\<lparr>Index_type := Link, Index_primelevel := 1\<rparr>
   \<and> Index_primelevel
        (snd (mapPrime Index_mapprime (Index_default\<lparr>Index_type := Link, Index_primelevel := 1\<rparr>)
           1 5 All)) = 5
   \<and> snd (mapPrime Index_mapprime (Index_default\<lparr>Index_type := Link, Index_primelevel := 1\<rparr>)
        2 9 All) = Index_default\<lparr>Index_type := Link, Index_primelevel := 1\<rparr>"
  using Index_mapprime_exact
      [of "Index_default\<lparr>Index_type := Link, Index_primelevel := 1\<rparr>" 1 Link 5
          "Index_default\<lparr>Index_type := Link, Index_primelevel := 1\<rparr>"]
    Index_mapprime_exact
      [of "Index_default\<lparr>Index_type := Link, Index_primelevel := 1\<rparr>" 1 Site 5]
  by (simp add: Index_default_def)

text \<open>
  C7. \<^verbatim>\<open>noprime(T)\<close> is \<^verbatim>\<open>prime(T, -primeLevel())\<close>: when T is the type of the Index
  or All it sets primeLevel to 0 and changes nothing else, otherwise it leaves the Index
  as it is. Its result is the Index it was called on.
\<close>

theorem Index_noprime_is_prime_type:
  "Index_noprime i t = Index_prime_type i t (- Index_primelevel i)
   \<and> (Index_type i = t \<or> t = All \<longrightarrow> Index_noprime i t = i\<lparr>Index_primelevel := 0\<rparr>)
   \<and> (Index_type i \<noteq> t \<and> t \<noteq> All \<longrightarrow> Index_noprime i t = i)"
  by (auto simp: Index_noprime_def Index_prime_type_def)

theorem Index_noprime_is_prime_type_witness:
  "Index_noprime (Index_default\<lparr>Index_type := Site, Index_primelevel := 3\<rparr>) Site
     = Index_default\<lparr>Index_type := Site, Index_primelevel := 0\<rparr>
   \<and> Index_noprime (Index_default\<lparr>Index_type := Site, Index_primelevel := 3\<rparr>) All
     = Index_default\<lparr>Index_type := Site, Index_primelevel := 0\<rparr>
   \<and> Index_type (Index_default\<lparr>Index_type := Site, Index_primelevel := 3\<rparr>) \<noteq> Link
   \<and> Index_noprime (Index_default\<lparr>Index_type := Site, Index_primelevel := 3\<rparr>) Link
     = Index_default\<lparr>Index_type := Site, Index_primelevel := 3\<rparr>"
  using Index_noprime_is_prime_type
      [of "Index_default\<lparr>Index_type := Site, Index_primelevel := 3\<rparr>" Site]
    Index_noprime_is_prime_type
      [of "Index_default\<lparr>Index_type := Site, Index_primelevel := 3\<rparr>" All]
    Index_noprime_is_prime_type
      [of "Index_default\<lparr>Index_type := Site, Index_primelevel := 3\<rparr>" Link]
  by (simp add: Index_default_def Index_prime_type_def)

section \<open>The free functions work on a copy\<close>

lemma IndexVal_prime_result:
  "IndexVal_prime debug V inc =
     (if debug \<and> sint (Index_primelevel (index V) + inc) < 0
        then Inl (Error ''Negative primeLevel'')
      else Inr (V\<lparr>index := (index V)\<lparr>Index_primelevel := Index_primelevel (index V) + inc\<rparr>\<rparr>))"
  by (simp add: IndexVal_prime_def Index_prime_def word_sless_alt)

lemma IndexVal_prime_type_result:
  "IndexVal_prime_type V t inc =
     (if Index_type (index V) = t \<or> t = All
        then V\<lparr>index := (index V)\<lparr>Index_primelevel := Index_primelevel (index V) + inc\<rparr>\<rparr>
      else V)"
  by (simp add: IndexVal_prime_type_def Index_prime_type_def)

lemma IndexVal_noprime_result:
  "IndexVal_noprime V t =
     (if Index_type (index V) = t \<or> t = All
        then V\<lparr>index := (index V)\<lparr>Index_primelevel := 0\<rparr>\<rparr>
      else V)"
  by (simp add: IndexVal_noprime_def Index_noprime_def Index_prime_type_def)

lemma IndexVal_mapprime_result:
  "IndexVal_mapprime V a b t =
     (if Index_primelevel (index V) = a \<and> (Index_type (index V) = t \<or> t = All)
        then V\<lparr>index := (index V)\<lparr>Index_primelevel := b\<rparr>\<rparr>
      else V)"
  by (auto simp: IndexVal_mapprime_def Index_mapprime_def)

text \<open>
  C8. The free functions \<^verbatim>\<open>prime\<close>, \<^verbatim>\<open>noprime\<close> and \<^verbatim>\<open>mapPrime\<close>, at \<^verbatim>\<open>Index\<close> and at
  \<^verbatim>\<open>IndexVal\<close>, leave the caller's argument as it was and return a transformed copy of it.
  At \<^verbatim>\<open>Index\<close> the copy returned by \<^verbatim>\<open>prime(I, inc)\<close> has inc added to its primeLevel
  (with the debug check, the fatal error takes the place of the result exactly when the
  new level is negative); the copy returned by \<^verbatim>\<open>prime(I, T, inc)\<close> has inc added when
  the type matches; that of \<^verbatim>\<open>noprime(I, T)\<close> has level 0 when the type matches; that of
  \<^verbatim>\<open>mapPrime(I, a, b, T)\<close> has level b when the level was a and the type matches; in
  every other case the copy is identical to the argument. At \<^verbatim>\<open>IndexVal\<close> the copy
  returned is the argument with exactly that change made to its member \<^verbatim>\<open>index\<close>, the
  member \<^verbatim>\<open>val\<close> being kept, and the error of the debug check is passed on. For
  \<^verbatim>\<open>i = Index("i", 4)\<close> and \<^verbatim>\<open>j = prime(i)\<close>: \<^verbatim>\<open>j.m() == 4\<close>, \<^verbatim>\<open>j.primeLevel() == 1\<close>,
  \<^verbatim>\<open>j.id() == i.id()\<close>, \<^verbatim>\<open>i == j\<close> is false and \<^verbatim>\<open>i.noprimeEquals(j)\<close> is true.
\<close>

theorem free_functions_by_value:
  "prime_free (Index_prime debug) I inc =
     (I, if debug \<and> sint (Index_primelevel I + inc) < 0
           then Inl (Error ''Negative primeLevel'')
         else Inr (I\<lparr>Index_primelevel := Index_primelevel I + inc\<rparr>))
   \<and> prime_free (IndexVal_prime debug) V inc =
     (V, if debug \<and> sint (Index_primelevel (index V) + inc) < 0
           then Inl (Error ''Negative primeLevel'')
         else Inr (V\<lparr>index := (index V)\<lparr>Index_primelevel :=
                                            Index_primelevel (index V) + inc\<rparr>\<rparr>))
   \<and> prime_type_free Index_prime_type I t inc =
     (I, if Index_type I = t \<or> t = All
           then I\<lparr>Index_primelevel := Index_primelevel I + inc\<rparr>
         else I)
   \<and> prime_type_free IndexVal_prime_type V t inc =
     (V, if Index_type (index V) = t \<or> t = All
           then V\<lparr>index := (index V)\<lparr>Index_primelevel :=
                                       Index_primelevel (index V) + inc\<rparr>\<rparr>
         else V)
   \<and> noprime_free Index_noprime I t =
     (I, if Index_type I = t \<or> t = All then I\<lparr>Index_primelevel := 0\<rparr> else I)
   \<and> noprime_free IndexVal_noprime V t =
     (V, if Index_type (index V) = t \<or> t = All
           then V\<lparr>index := (index V)\<lparr>Index_primelevel := 0\<rparr>\<rparr>
         else V)
   \<and> mapPrime Index_mapprime I a b t =
     (I, if Index_primelevel I = a \<and> (Index_type I = t \<or> t = All)
           then I\<lparr>Index_primelevel := b\<rparr>
         else I)
   \<and> mapPrime IndexVal_mapprime V a b t =
     (V, if Index_primelevel (index V) = a \<and> (Index_type (index V) = t \<or> t = All)
           then V\<lparr>index := (index V)\<lparr>Index_primelevel := b\<rparr>\<rparr>
         else V)
   \<and> (Index_ctor debug rng g ''i'' 4 Link 0 = Inr (i, g') \<longrightarrow>
        (\<exists>j. prime_free (Index_prime debug) i 1 = (i, Inr j)
           \<and> Index_m j = 4 \<and> Index_primelevel j = 1 \<and> Index_id j = Index_id i
           \<and> \<not> Index_eq i j \<and> Index_noprimeEquals i j))"
proof -
  have scenario: "\<exists>j. prime_free (Index_prime debug) i 1 = (i, Inr j)
           \<and> Index_m j = 4 \<and> Index_primelevel j = 1 \<and> Index_id j = Index_id i
           \<and> \<not> Index_eq i j \<and> Index_noprimeEquals i j"
    if "Index_ctor debug rng g ''i'' 4 Link 0 = Inr (i, g')"
  proof -
    from that have i: "Index_m i = 4" "Index_primelevel i = 0"
      by (auto simp: Index_ctor_def Let_def split: prod.splits if_splits)
    then show ?thesis
      by (simp add: prime_free_def Index_prime_def Index_eq_def Index_noprimeEquals_def
          word_sless_alt)
  qed
  have at_Index:
    "Index_prime debug I inc =
       (if debug \<and> sint (Index_primelevel I + inc) < 0
          then Inl (Error ''Negative primeLevel'')
        else Inr (I\<lparr>Index_primelevel := Index_primelevel I + inc\<rparr>))"
    "Index_prime_type I t inc =
       (if Index_type I = t \<or> t = All
          then I\<lparr>Index_primelevel := Index_primelevel I + inc\<rparr> else I)"
    "Index_noprime I t =
       (if Index_type I = t \<or> t = All then I\<lparr>Index_primelevel := 0\<rparr> else I)"
    "Index_mapprime I a b t =
       (if Index_primelevel I = a \<and> (Index_type I = t \<or> t = All)
          then I\<lparr>Index_primelevel := b\<rparr> else I)"
    by (simp_all add: Index_prime_def Index_prime_type_def Index_noprime_def
        Index_mapprime_def word_sless_alt)
  show ?thesis
    unfolding prime_free_def prime_type_free_def noprime_free_def mapPrime_def Let_def
    using scenario [unfolded prime_free_def Let_def]
    by (simp only: at_Index IndexVal_prime_result IndexVal_prime_type_result
        IndexVal_noprime_result IndexVal_mapprime_result) blast
qed

theorem free_functions_by_value_witness:
  "Index_ctor True (Pair 9) () ''i'' 4 Link 0 =
     Inr (\<lparr>Index_id = 9, Index_primelevel = 0, Index_m = 4, Index_type = Link,
           Index_sname = ''i''\<rparr>, ())
   \<and> prime_free (Index_prime True)
        \<lparr>Index_id = 9, Index_primelevel = 0, Index_m = 4, Index_type = Link, Index_sname = ''i''\<rparr> 1
      = (\<lparr>Index_id = 9, Index_primelevel = 0, Index_m = 4, Index_type = Link, Index_sname = ''i''\<rparr>,
         Inr \<lparr>Index_id = 9, Index_primelevel = 1, Index_m = 4, Index_type = Link,
              Index_sname = ''i''\<rparr>)
   \<and> \<not> Index_eq
        \<lparr>Index_id = 9, Index_primelevel = 0, Index_m = 4, Index_type = Link, Index_sname = ''i''\<rparr>
        \<lparr>Index_id = 9, Index_primelevel = 1, Index_m = 4, Index_type = Link, Index_sname = ''i''\<rparr>
   \<and> Index_noprimeEquals
        \<lparr>Index_id = 9, Index_primelevel = 0, Index_m = 4, Index_type = Link, Index_sname = ''i''\<rparr>
        \<lparr>Index_id = 9, Index_primelevel = 1, Index_m = 4, Index_type = Link, Index_sname = ''i''\<rparr>
   \<and> prime_free (IndexVal_prime True)
        \<lparr>index = \<lparr>Index_id = 9, Index_primelevel = 1, Index_m = 4, Index_type = Link,
                   Index_sname = ''i''\<rparr>, val = 3\<rparr> 1
      = (\<lparr>index = \<lparr>Index_id = 9, Index_primelevel = 1, Index_m = 4, Index_type = Link,
                    Index_sname = ''i''\<rparr>, val = 3\<rparr>,
         Inr \<lparr>index = \<lparr>Index_id = 9, Index_primelevel = 2, Index_m = 4, Index_type = Link,
                        Index_sname = ''i''\<rparr>, val = 3\<rparr>)
   \<and> prime_free (IndexVal_prime True)
        \<lparr>index = \<lparr>Index_id = 9, Index_primelevel = 1, Index_m = 4, Index_type = Link,
                   Index_sname = ''i''\<rparr>, val = 3\<rparr> (- 2)
      = (\<lparr>index = \<lparr>Index_id = 9, Index_primelevel = 1, Index_m = 4, Index_type = Link,
                    Index_sname = ''i''\<rparr>, val = 3\<rparr>,
         Inl (Error ''Negative primeLevel''))
   \<and> prime_type_free IndexVal_prime_type
        \<lparr>index = \<lparr>Index_id = 9, Index_primelevel = 1, Index_m = 4, Index_type = Link,
                   Index_sname = ''i''\<rparr>, val = 3\<rparr> Link 1
      = (\<lparr>index = \<lparr>Index_id = 9, Index_primelevel = 1, Index_m = 4, Index_type = Link,
                    Index_sname = ''i''\<rparr>, val = 3\<rparr>,
         \<lparr>index = \<lparr>Index_id = 9, Index_primelevel = 2, Index_m = 4, Index_type = Link,
                    Index_sname = ''i''\<rparr>, val = 3\<rparr>)
   \<and> noprime_free IndexVal_noprime
        \<lparr>index = \<lparr>Index_id = 9, Index_primelevel = 1, Index_m = 4, Index_type = Link,
                   Index_sname = ''i''\<rparr>, val = 3\<rparr> All
      = (\<lparr>index = \<lparr>Index_id = 9, Index_primelevel = 1, Index_m = 4, Index_type = Link,
                    Index_sname = ''i''\<rparr>, val = 3\<rparr>,
         \<lparr>index = \<lparr>Index_id = 9, Index_primelevel = 0, Index_m = 4, Index_type = Link,
                    Index_sname = ''i''\<rparr>, val = 3\<rparr>)
   \<and> noprime_free IndexVal_noprime
        \<lparr>index = \<lparr>Index_id = 9, Index_primelevel = 1, Index_m = 4, Index_type = Link,
                   Index_sname = ''i''\<rparr>, val = 3\<rparr> Site
      = (\<lparr>index = \<lparr>Index_id = 9, Index_primelevel = 1, Index_m = 4, Index_type = Link,
                    Index_sname = ''i''\<rparr>, val = 3\<rparr>,
         \<lparr>index = \<lparr>Index_id = 9, Index_primelevel = 1, Index_m = 4, Index_type = Link,
                    Index_sname = ''i''\<rparr>, val = 3\<rparr>)
   \<and> mapPrime IndexVal_mapprime
        \<lparr>index = \<lparr>Index_id = 9, Index_primelevel = 1, Index_m = 4, Index_type = Link,
                   Index_sname = ''i''\<rparr>, val = 3\<rparr> 1 5 All
      = (\<lparr>index = \<lparr>Index_id = 9, Index_primelevel = 1, Index_m = 4, Index_type = Link,
                    Index_sname = ''i''\<rparr>, val = 3\<rparr>,
         \<lparr>index = \<lparr>Index_id = 9, Index_primelevel = 5, Index_m = 4, Index_type = Link,
                    Index_sname = ''i''\<rparr>, val = 3\<rparr>)"
proof -
  let ?i = "\<lparr>Index_id = 9, Index_primelevel = 0, Index_m = 4, Index_type = Link,
             Index_sname = ''i''\<rparr>"
  let ?V = "\<lparr>index = \<lparr>Index_id = 9, Index_primelevel = 1, Index_m = 4, Index_type = Link,
                      Index_sname = ''i''\<rparr>, val = 3\<rparr>"
  have ctor: "Index_ctor True (Pair 9) () ''i'' 4 Link 0 = Inr (?i, ())"
    by (simp add: Index_ctor_def)
  note inst = free_functions_by_value [of True ?i 1 ?V Link 1 5 "Pair 9" "()" ?i "()"]
    free_functions_by_value [of True ?i "- 2" ?V All 1 5 "Pair 9" "()" ?i "()"]
    free_functions_by_value [of True ?i 1 ?V Site 1 5 "Pair 9" "()" ?i "()"]
  from inst ctor show ?thesis
    by (simp add: Index_eq_def Index_noprimeEquals_def)
qed

section \<open>The binary codec: reading back what was written\<close>

lemma length_le_bytes: "length (le_bytes n v) = n"
  by (induction n arbitrary: v) simp_all

lemma le_nat_le_bytes: "le_nat (le_bytes n v) = v mod 256 ^ n"
proof (induction n arbitrary: v)
  case 0
  then show ?case by simp
next
  case (Suc n)
  have "v mod 256 + 256 * (v div 256 mod 256 ^ n) = v mod (256 * 256 ^ n)"
    by (simp add: mod_mult2_eq)
  with Suc show ?case by simp
qed

lemma get_bytes_append: "length xs = n \<Longrightarrow> get_bytes n (xs @ ys) = Inr (xs, ys)"
  by (simp add: get_bytes_def)

lemma IndexType_of_ordinal_inverse: "IndexType_of_ordinal (IndexType_ordinal t) = Some t"
  by (cases t) (simp_all add: IndexType_of_ordinal_def)

lemma IndexType_ordinal_less: "IndexType_ordinal t < 256 ^ 4"
  by (cases t) simp_all

lemma c_int_le_bytes: "of_nat (le_nat (le_bytes 4 (unat (w::c_int)))) = w"
proof -
  have "unat w < 256 ^ 4"
    using unsigned_less [of w] by simp
  then show ?thesis
    by (simp add: le_nat_le_bytes)
qed

lemma c_long_le_bytes: "of_nat (le_nat (le_bytes 8 (unat (w::c_long)))) = w"
proof -
  have "unat w < 256 ^ 8"
    using unsigned_less [of w] by simp
  then show ?thesis
    by (simp add: le_nat_le_bytes)
qed

lemma Index_read_Index_write:
  assumes "length (Index_sname x) < 2 ^ 32"
  shows "Index_read this (Index_write x [] @ rest) = Inr (x, rest)"
proof -
  from assms have len: "le_nat (le_bytes 4 (length (Index_sname x))) = length (Index_sname x)"
    by (simp add: le_nat_le_bytes)
  have ty: "le_nat (le_bytes 4 (IndexType_ordinal (Index_type x)))
              = IndexType_ordinal (Index_type x)"
    using IndexType_ordinal_less [of "Index_type x"] by (simp add: le_nat_le_bytes)
  show ?thesis
    by (simp add: Index_read_def Index_write_def and_then_def get_bytes_append length_le_bytes
        c_int_le_bytes c_long_le_bytes len ty IndexType_of_ordinal_inverse)
qed

text \<open>
  C2. For an Index x whose name fits the length prefix, reading the bytes that
  \<^verbatim>\<open>write\<close> produced for x, into any Index, succeeds, consumes exactly those bytes, and
  yields an Index y that is equal to x under \<^verbatim>\<open>==\<close> and under \<^verbatim>\<open>noprimeEquals\<close> and has
  the \<^verbatim>\<open>name()\<close>, \<^verbatim>\<open>rawname()\<close>, \<^verbatim>\<open>m()\<close> and \<^verbatim>\<open>type()\<close> of x; y is x in every member.
\<close>

theorem Index_read_write_roundtrip:
  assumes "length (Index_sname x) < 2 ^ 32"
  shows "\<exists>y. Index_read this (Index_write x [] @ rest) = Inr (y, rest)
           \<and> Index_eq y x \<and> Index_noprimeEquals y x
           \<and> Index_name primes y = Index_name primes x
           \<and> Index_rawname y = Index_rawname x
           \<and> Index_m y = Index_m x \<and> Index_type y = Index_type x
           \<and> y = x"
  using Index_read_Index_write [OF assms, of this rest]
  by (simp add: Index_eq_def Index_noprimeEquals_def)

theorem Index_read_write_roundtrip_witness:
  "length (Index_sname \<lparr>Index_id = 77, Index_primelevel = 2, Index_m = 4, Index_type = Site,
                        Index_sname = ''s1''\<rparr>) < 2 ^ 32
   \<and> Index_read Index_default
        (Index_write \<lparr>Index_id = 77, Index_primelevel = 2, Index_m = 4, Index_type = Site,
                      Index_sname = ''s1''\<rparr> [] @ [])
      = Inr (\<lparr>Index_id = 77, Index_primelevel = 2, Index_m = 4, Index_type = Site,
              Index_sname = ''s1''\<rparr>, [])"
proof -
  have h: "length (Index_sname \<lparr>Index_id = 77, Index_primelevel = 2, Index_m = 4,
                     Index_type = Site, Index_sname = ''s1''\<rparr>) < 2 ^ 32"
    by simp
  from Index_read_write_roundtrip [OF h, of Index_default "[]"] h
  show ?thesis by auto
qed

end
